theory Spec2Isabelle
  imports Main "HOL-Library.Sublist" "HOL-Library.List_Lexorder" "HOL-Library.Char_ord"
begin

section \<open>Like and repost actions (\<^verbatim>\<open>_actions/favorite.js\<close>, \<^verbatim>\<open>_actions/reblog.js\<close>)\<close>

text \<open>
  \<^verbatim>\<open>setFavorited(statusId, favorited)\<close> and \<^verbatim>\<open>setReblogged(statusId, reblogged)\<close> read the
  store, talk to the network, and call store and database methods. The model returns the
  sequence of these effects in program order. The awaited promises are inputs: the
  outcome of the network call and the outcome of the database write.

  A JavaScript value that is a string, \<^verbatim>\<open>undefined\<close> or \<^verbatim>\<open>null\<close> is a \<open>string option\<close>;
  it is truthy when it is a non-empty string.
\<close>

definition truthy :: "string option \<Rightarrow> bool" where
  "truthy v = (case v of None \<Rightarrow> False | Some s \<Rightarrow> s \<noteq> [])"

datatype protocol = ProtocolNull | ActivityPub | Atproto

text \<open>
  The \<^verbatim>\<open>statusId\<close> argument: a plain id string (ActivityPub), or for ATProto the object
  \<^verbatim>\<open>{ uri, cid, likeUri, repostUri }\<close>.
\<close>

record id_bundle =
  uri :: "string option"
  cid :: "string option"
  likeUri :: "string option"
  repostUri :: "string option"

datatype status_id = IdStr string | IdObj id_bundle

text \<open>Destructuring \<^verbatim>\<open>const { uri, cid, likeUri } = statusId\<close>: a string has none of them.\<close>

fun sid_uri :: "status_id \<Rightarrow> string option" where
  "sid_uri (IdStr s) = None"
| "sid_uri (IdObj b) = uri b"

fun sid_cid :: "status_id \<Rightarrow> string option" where
  "sid_cid (IdStr s) = None"
| "sid_cid (IdObj b) = cid b"

fun sid_likeUri :: "status_id \<Rightarrow> string option" where
  "sid_likeUri (IdStr s) = None"
| "sid_likeUri (IdObj b) = likeUri b"

fun sid_repostUri :: "status_id \<Rightarrow> string option" where
  "sid_repostUri (IdStr s) = None"
| "sid_repostUri (IdObj b) = repostUri b"

text \<open>The assignments \<^verbatim>\<open>statusId.likeUri = ...\<close> and \<^verbatim>\<open>statusId.repostUri = ...\<close>.\<close>

fun sid_set_likeUri :: "status_id \<Rightarrow> string option \<Rightarrow> status_id" where
  "sid_set_likeUri (IdStr s) v = IdStr s"
| "sid_set_likeUri (IdObj b) v = IdObj (b\<lparr>likeUri := v\<rparr>)"

fun sid_set_repostUri :: "status_id \<Rightarrow> string option \<Rightarrow> status_id" where
  "sid_set_repostUri (IdStr s) v = IdStr s"
| "sid_set_repostUri (IdObj b) v = IdObj (b\<lparr>repostUri := v\<rparr>)"

text \<open>
  The copy of a post that \<^verbatim>\<open>store.getPostByUri(uri)\<close> returns, with the two properties the
  actions read from it.
\<close>

record cached_post =
  my_like_uri :: "string option"
  my_repost_uri :: "string option"

text \<open>
  What the actions read from the store. \<^verbatim>\<open>store.getPostByUri\<close> is defined outside the
  files embedded here; it is the field \<open>getPostByUri\<close>, any lookup function.
\<close>

record store_state =
  online :: bool
  currentInstance :: string
  accessToken :: string
  currentAccountProtocol :: protocol
  getPostByUri :: "string option \<Rightarrow> cached_post option"

text \<open>An awaited promise either resolves with a value or rejects with \<^verbatim>\<open>e.message || ''\<close>.\<close>

datatype 'a outcome = Resolved 'a | Rejected string

text \<open>
  The effects, one constructor per call in the source. The arguments are the arguments of
  the call. \<open>ToastIntl key err\<close> is \<^verbatim>\<open>toast.say(formatIntl(key, { error: err }))\<close>.
\<close>

datatype action =
    Toast string
  | ToastIntl string string
  | LikePost "string option" "string option"
  | DeleteLike "string option"
  | RepostPost "string option" "string option"
  | DeleteRepost "string option"
  | ApFavoriteStatus string string status_id
  | ApUnfavoriteStatus string string status_id
  | ApReblogStatus string string status_id
  | ApUnreblogStatus string string status_id
  | StoreSetStatusFavorited string status_id bool protocol bool
  | StoreSetStatusReblogged string status_id bool protocol bool
  | StoreSetPostLikeUri string "string option" "string option" bool
  | StoreSetPostRepostUri string "string option" "string option" bool
  | DbSetStatusFavorited string status_id bool
  | DbSetStatusReblogged string status_id bool

text \<open>
  \<^verbatim>\<open>idForStoreModification = currentAccountProtocol === 'atproto' ? statusId.uri : statusId\<close>.
  Past the checks \<^verbatim>\<open>statusId.uri\<close> is a non-empty string.
\<close>

definition idForStoreModification :: "protocol \<Rightarrow> status_id \<Rightarrow> status_id" where
  "idForStoreModification p statusId =
     (if p = Atproto then (case sid_uri statusId of Some u \<Rightarrow> IdStr u | None \<Rightarrow> statusId)
      else statusId)"

text \<open>
  \<open>favorite_rest\<close> is \<^verbatim>\<open>setFavorited\<close> from the creation of \<^verbatim>\<open>networkPromise\<close> on:
  the network call, the optimistic update, then the \<^verbatim>\<open>try\<close> block and its \<^verbatim>\<open>catch\<close>.
\<close>

definition favorite_undo :: "store_state \<Rightarrow> status_id \<Rightarrow> bool \<Rightarrow> string \<Rightarrow> action list" where
  "favorite_undo st statusId favorited msg =
     [ToastIntl (if favorited then ''intl.unableToFavorite'' else ''intl.unableToUnfavorite'') msg,
      StoreSetStatusFavorited (currentInstance st) statusId (\<not> favorited)
        (currentAccountProtocol st) True]"

definition favorite_rest ::
  "store_state \<Rightarrow> status_id \<Rightarrow> bool \<Rightarrow> string option outcome \<Rightarrow> unit outcome \<Rightarrow> action list" where
  "favorite_rest st statusId favorited net db =
     (let p = currentAccountProtocol st; inst = currentInstance st in
      [if p = Atproto
       then (if favorited then LikePost (sid_uri statusId) (sid_cid statusId)
             else DeleteLike (sid_likeUri statusId))
       else (if favorited then ApFavoriteStatus inst (accessToken st) statusId
             else ApUnfavoriteStatus inst (accessToken st) statusId),
       StoreSetStatusFavorited inst (idForStoreModification p statusId) favorited p False]
      @ (case net of
           Rejected msg \<Rightarrow> favorite_undo st statusId favorited msg
         | Resolved response_uri \<Rightarrow>
             (if p = Atproto \<and> favorited \<and> truthy response_uri
              then [StoreSetPostLikeUri inst (sid_uri statusId) response_uri favorited]
              else if p = Atproto \<and> \<not> favorited
              then [StoreSetPostLikeUri inst (sid_uri statusId) None favorited]
              else [])
             @ (if p \<noteq> Atproto
                then DbSetStatusFavorited inst statusId favorited
                     # (case db of
                          Rejected msg \<Rightarrow> favorite_undo st statusId favorited msg
                        | Resolved u \<Rightarrow> [])
                else [])))"

definition setFavorited ::
  "store_state \<Rightarrow> status_id \<Rightarrow> bool \<Rightarrow> string option outcome \<Rightarrow> unit outcome \<Rightarrow> action list" where
  "setFavorited st statusId favorited net db =
     (if \<not> online st
      then [Toast (if favorited then ''intl.cannotFavoriteOffline''
                   else ''intl.cannotUnfavoriteOffline'')]
      else if currentAccountProtocol st = Atproto
      then (if \<not> truthy (sid_uri statusId) \<or> \<not> truthy (sid_cid statusId)
            then [Toast ''Error: Missing post information for like action.'']
            else if \<not> favorited \<and> \<not> truthy (sid_likeUri statusId)
            then (case getPostByUri st (sid_uri statusId) of
                    None \<Rightarrow> [Toast ''Error: Cannot unlike, like information missing.'']
                  | Some postInStore \<Rightarrow>
                      if truthy (my_like_uri postInStore)
                      then (let statusId' = sid_set_likeUri statusId (my_like_uri postInStore) in
                            if \<not> truthy (sid_likeUri statusId')
                            then [Toast ''Error: Cannot unlike, like information missing.'']
                            else favorite_rest st statusId' favorited net db)
                      else [Toast ''Error: Cannot unlike, like information missing.''])
            else favorite_rest st statusId favorited net db)
      else favorite_rest st statusId favorited net db)"

definition reblog_undo :: "store_state \<Rightarrow> status_id \<Rightarrow> bool \<Rightarrow> string \<Rightarrow> action list" where
  "reblog_undo st statusId reblogged msg =
     [ToastIntl (if reblogged then ''intl.failedToReblog'' else ''intl.failedToUnreblog'') msg,
      StoreSetStatusReblogged (currentInstance st) statusId (\<not> reblogged)
        (currentAccountProtocol st) True]"

definition reblog_rest ::
  "store_state \<Rightarrow> status_id \<Rightarrow> bool \<Rightarrow> string option outcome \<Rightarrow> unit outcome \<Rightarrow> action list" where
  "reblog_rest st statusId reblogged net db =
     (let p = currentAccountProtocol st; inst = currentInstance st in
      [if p = Atproto
       then (if reblogged then RepostPost (sid_uri statusId) (sid_cid statusId)
             else DeleteRepost (sid_repostUri statusId))
       else (if reblogged then ApReblogStatus inst (accessToken st) statusId
             else ApUnreblogStatus inst (accessToken st) statusId),
       StoreSetStatusReblogged inst (idForStoreModification p statusId) reblogged p False]
      @ (case net of
           Rejected msg \<Rightarrow> reblog_undo st statusId reblogged msg
         | Resolved response_uri \<Rightarrow>
             (if p = Atproto \<and> reblogged \<and> truthy response_uri
              then [StoreSetPostRepostUri inst (sid_uri statusId) response_uri reblogged]
              else if p = Atproto \<and> \<not> reblogged
              then [StoreSetPostRepostUri inst (sid_uri statusId) None reblogged]
              else [])
             @ (if p \<noteq> Atproto
                then DbSetStatusReblogged inst statusId reblogged
                     # (case db of
                          Rejected msg \<Rightarrow> reblog_undo st statusId reblogged msg
                        | Resolved u \<Rightarrow> [])
                else [])))"

definition setReblogged ::
  "store_state \<Rightarrow> status_id \<Rightarrow> bool \<Rightarrow> string option outcome \<Rightarrow> unit outcome \<Rightarrow> action list" where
  "setReblogged st statusId reblogged net db =
     (if \<not> online st
      then [Toast (if reblogged then ''intl.cannotReblogOffline''
                   else ''intl.cannotUnreblogOffline'')]
      else if currentAccountProtocol st = Atproto
      then (if \<not> truthy (sid_uri statusId) \<or> \<not> truthy (sid_cid statusId)
            then [Toast ''Error: Missing post information for repost action.'']
            else if \<not> reblogged \<and> \<not> truthy (sid_repostUri statusId)
            then (case getPostByUri st (sid_uri statusId) of
                    None \<Rightarrow> [Toast ''Error: Cannot un-repost, repost information missing.'']
                  | Some postInStore \<Rightarrow>
                      if truthy (my_repost_uri postInStore)
                      then (let statusId' = sid_set_repostUri statusId (my_repost_uri postInStore) in
                            if \<not> truthy (sid_repostUri statusId')
                            then [Toast ''Error: Cannot un-repost, repost information missing.'']
                            else reblog_rest st statusId' reblogged net db)
                      else [Toast ''Error: Cannot un-repost, repost information missing.''])
            else reblog_rest st statusId reblogged net db)
      else reblog_rest st statusId reblogged net db)"

text \<open>
  Which effects reach beyond the toast: network calls, writes to the store, writes to the
  database.
\<close>

fun is_toast :: "action \<Rightarrow> bool" where
  "is_toast (Toast m) = True"
| "is_toast (ToastIntl k e) = True"
| "is_toast a = False"

text \<open>
  Modelled from the spec: \<^verbatim>\<open>store.setStatusFavorited\<close> and \<^verbatim>\<open>store.setStatusReblogged\<close>
  are defined outside the files embedded here. The spec has them flip the boolean flag of
  the status they are given. \<open>flags\<close> holds the flag per target the store method was called with, and
  \<open>apply_action\<close> replays one effect on it; every other effect leaves the flags alone.
\<close>

record flags =
  favorites :: "status_id \<Rightarrow> bool option"
  reblogs :: "status_id \<Rightarrow> bool option"

fun apply_action :: "action \<Rightarrow> flags \<Rightarrow> flags" where
  "apply_action (StoreSetStatusFavorited inst k v p undo) f = f\<lparr>favorites := (favorites f)(k \<mapsto> v)\<rparr>"
| "apply_action (StoreSetStatusReblogged inst k v p undo) f = f\<lparr>reblogs := (reblogs f)(k \<mapsto> v)\<rparr>"
| "apply_action a f = f"

definition run_actions :: "action list \<Rightarrow> flags \<Rightarrow> flags" where
  "run_actions as f = fold apply_action as f"

section \<open>The ATProto normalizer (\<^verbatim>\<open>_api_atproto/timelines.js\<close>)\<close>

text \<open>
  \<^verbatim>\<open>transformAtprotoPostToEnaforeStatus(feedViewPost)\<close>. The input is a \<^verbatim>\<open>FeedViewPost\<close>
  \<^verbatim>\<open>{ post, reply, reason }\<close>; a property that may be missing is an option. The model keeps
  the fields of the result that identify the item, order it and carry the viewer's state,
  the reply links and the sensitivity labels; embeds and facets (media, card, quote,
  mentions, tags) fill other fields of the result and are left out.
\<close>

record profile_view =
  did :: string
  handle :: string
  profile_labels :: "string list option"

record reply_ref =
  parent_uri :: "string option"
  root_uri :: "string option"

record post_view =
  post_uri :: string
  post_cid :: "string option"
  post_author :: "profile_view option"
  record_text :: "string option"
  record_createdAt :: "string option"
  post_indexedAt :: "string option"
  post_replyCount :: "nat option"
  post_repostCount :: "nat option"
  post_likeCount :: "nat option"
  viewer_like :: "string option"
  viewer_repost :: "string option"
  post_labels :: "string list option"
  post_reply :: "reply_ref option"

datatype reason = ReasonRepost profile_view "string option" | ReasonOther string

record feed_view_post =
  fvp_post :: "post_view option"
  fvp_reply :: "reply_ref option"
  fvp_reason :: "reason option"

text \<open>
  The result. \<open>post_status\<close> is the object \<^verbatim>\<open>enoStatus\<close> built for a post; \<open>status\<close> adds
  the two properties that only the repost branch sets: \<^verbatim>\<open>reblog\<close>, the transformed
  original post, and \<^verbatim>\<open>reblogged_by\<close>, kept here as the did of \<^verbatim>\<open>reason.by\<close>.
\<close>

record post_status =
  s_id :: string
  s_uri :: string
  s_content :: string
  s_createdAt :: "string option"
  s_account :: string
  s_cid :: "string option"
  s_indexedAt :: "string option"
  s_replyCount :: nat
  s_repostCount :: nat
  s_likeCount :: nat
  s_favorited :: bool
  s_reblogged :: bool
  s_myLikeUri :: "string option"
  s_myRepostUri :: "string option"
  s_replyParentUri :: "string option"
  s_replyRootUri :: "string option"
  s_sensitive :: bool
  s_spoiler_text :: string

record status = post_status +
  reblog :: "post_status option"
  reblogged_by :: "string option"

text \<open>\<^verbatim>\<open>x || 0\<close> on a count and \<^verbatim>\<open>x || ''\<close> on a text.\<close>

definition or_zero :: "nat option \<Rightarrow> nat" where
  "or_zero v = (case v of None \<Rightarrow> 0 | Some n \<Rightarrow> n)"

definition or_empty :: "string option \<Rightarrow> string" where
  "or_empty v = (case v of None \<Rightarrow> [] | Some s \<Rightarrow> s)"

text \<open>
  The labels: \<^verbatim>\<open>post.labels?.map(l => l.val) || []\<close> and the author's, then the four
  checks in the order of the source. The pair is \<^verbatim>\<open>(sensitive, spoiler_text)\<close>.
\<close>

definition sensitiveCategories :: "string list" where
  "sensitiveCategories = [''porn'', ''sexual'', ''nudity'', ''gore'', ''corpse'', ''self-harm'']"

definition label_vals :: "string list option \<Rightarrow> string list" where
  "label_vals v = (case v of None \<Rightarrow> [] | Some ls \<Rightarrow> ls)"

definition labels_to_sensitivity :: "string list \<Rightarrow> string list \<Rightarrow> bool \<times> string" where
  "labels_to_sensitivity postLabels authorLabels =
     (let allApplicableLabels = set (postLabels @ authorLabels);
          sensitive1 = list_ex (\<lambda>cat. cat \<in> allApplicableLabels) sensitiveCategories;
          sensitive2 = (if ''nsfw'' \<in> allApplicableLabels \<and> \<not> sensitive1 then True else sensitive1);
          (sensitive3, spoiler3) =
             (if ''!warn'' \<in> set postLabels then (True, ''Content Warning'')
              else (sensitive2, []))
      in if ''hide'' \<in> allApplicableLabels
         then (if \<not> sensitive3
               then (True, if spoiler3 = [] then ''Content Warning (moderation)'' else spoiler3)
               else (sensitive3, spoiler3))
         else (sensitive3, spoiler3))"

text \<open>The object \<^verbatim>\<open>enoStatus\<close>: the branch for an item that is not a repost.\<close>

definition transform_post :: "post_view \<Rightarrow> profile_view \<Rightarrow> reply_ref option \<Rightarrow> post_status" where
  "transform_post p author reply =
     (let (sensitive, spoiler) =
            labels_to_sensitivity (label_vals (post_labels p)) (label_vals (profile_labels author))
      in \<lparr>s_id = post_uri p,
          s_uri = post_uri p,
          s_content = or_empty (record_text p),
          s_createdAt = record_createdAt p,
          s_account = did author,
          s_cid = post_cid p,
          s_indexedAt = post_indexedAt p,
          s_replyCount = or_zero (post_replyCount p),
          s_repostCount = or_zero (post_repostCount p),
          s_likeCount = or_zero (post_likeCount p),
          s_favorited = truthy (viewer_like p),
          s_reblogged = truthy (viewer_repost p),
          s_myLikeUri = viewer_like p,
          s_myRepostUri = viewer_repost p,
          s_replyParentUri = (case reply of None \<Rightarrow> None | Some r \<Rightarrow> parent_uri r),
          s_replyRootUri = (case reply of None \<Rightarrow> None | Some r \<Rightarrow> root_uri r),
          s_sensitive = sensitive,
          s_spoiler_text = spoiler\<rparr>)"

text \<open>
  The whole function, in the revision whose module binds every name it uses. \<open>None\<close> is
  \<^verbatim>\<open>null\<close>: the guard
  \<^verbatim>\<open>!feedViewPost || !feedViewPost.post || !feedViewPost.post.author\<close> is its first statement.
  \<^verbatim>\<open>enoStatus\<close> is built with \<^verbatim>\<open>id: post.uri\<close>. For a repost reason the branch sets
  \<^verbatim>\<open>enoStatus.reblog = transformAtprotoPostToEnaforeStatus({ post: post })\<close>,
  \<^verbatim>\<open>enoStatus.reblogged_by\<close> from \<^verbatim>\<open>reason.by\<close> and
  \<^verbatim>\<open>enoStatus.createdAt = reason.indexedAt\<close>; it assigns neither \<^verbatim>\<open>id\<close> nor \<^verbatim>\<open>uri\<close>.
\<close>

definition transformAtprotoPostToEnaforeStatus :: "feed_view_post option \<Rightarrow> status option" where
  "transformAtprotoPostToEnaforeStatus feedViewPost =
     (case feedViewPost of
        None \<Rightarrow> None
      | Some fvp \<Rightarrow>
          (case fvp_post fvp of
             None \<Rightarrow> None
           | Some p \<Rightarrow>
               (case post_author p of
                  None \<Rightarrow> None
                | Some author \<Rightarrow>
                    (let enoStatus = transform_post p author (fvp_reply fvp)
                     in case fvp_reason fvp of
                          Some (ReasonRepost by indexedAt) \<Rightarrow>
                            Some (post_status.extend (enoStatus\<lparr>s_createdAt := indexedAt\<rparr>)
                                    (status.fields (Some (transform_post p author None))
                                       (Some (did by))))
                        | _ \<Rightarrow>
                            Some (post_status.extend enoStatus (status.fields None None))))))"

text \<open>
  The later revision of the function, the one holding the branch that would build the id
  \<^verbatim>\<open>`repost:${reason.by.did}:${post.uri}`\<close>. Its module imports \<^verbatim>\<open>agent\<close> and
  \<^verbatim>\<open>getActiveSessionData\<close> and declares no other helper, yet after the guard both paths
  call \<^verbatim>\<open>transformProfileViewBasicToEnaforeAccount\<close>: the plain path in the \<^verbatim>\<open>author\<close>
  property of \<^verbatim>\<open>enoStatus\<close>, the repost branch first through the nested transform of the
  original post, whose \<^verbatim>\<open>author\<close> property is that same call. The name is unbound, so the
  call throws before any object is built. \<open>Inl\<close> is the exception.
\<close>

definition transformAtprotoPostToEnaforeStatus_later ::
  "feed_view_post option \<Rightarrow> string + status option" where
  "transformAtprotoPostToEnaforeStatus_later feedViewPost =
     (case feedViewPost of
        None \<Rightarrow> Inr None
      | Some fvp \<Rightarrow>
          (case fvp_post fvp of
             None \<Rightarrow> Inr None
           | Some p \<Rightarrow>
               (case post_author p of
                  None \<Rightarrow> Inr None
                | Some author \<Rightarrow>
                    Inl ''ReferenceError: transformProfileViewBasicToEnaforeAccount is not defined'')))"

text \<open>
  The status object as the rest of the application reads it: by property name.
  \<open>read_property s name\<close> is \<^verbatim>\<open>s[name]\<close> for the string-valued properties the normalizer
  writes, \<open>None\<close> (\<^verbatim>\<open>undefined\<close>) for every name it does not write. The store mixins
  \<^verbatim>\<open>setPostLikeUri\<close> and \<^verbatim>\<open>setPostRepostUri\<close> update the same two names \<^verbatim>\<open>myLikeUri\<close> and
  \<^verbatim>\<open>myRepostUri\<close>.
\<close>

definition read_property :: "status \<Rightarrow> string \<Rightarrow> string option" where
  "read_property s name =
     (if name = ''id'' then Some (s_id s)
      else if name = ''uri'' then Some (s_uri s)
      else if name = ''content'' then Some (s_content s)
      else if name = ''createdAt'' then s_createdAt s
      else if name = ''cid'' then s_cid s
      else if name = ''indexedAt'' then s_indexedAt s
      else if name = ''myLikeUri'' then s_myLikeUri s
      else if name = ''myRepostUri'' then s_myRepostUri s
      else if name = ''replyParentUri'' then s_replyParentUri s
      else if name = ''replyRootUri'' then s_replyRootUri s
      else if name = ''spoiler_text'' then Some (s_spoiler_text s)
      else None)"

text \<open>
  What \<^verbatim>\<open>favorite.js\<close> and \<^verbatim>\<open>reblog.js\<close> read off a cached status:
  \<^verbatim>\<open>postInStore.my_like_uri\<close> and \<^verbatim>\<open>postInStore.my_repost_uri\<close>.
\<close>

definition cached_post_of_status :: "status \<Rightarrow> cached_post" where
  "cached_post_of_status s =
     \<lparr>my_like_uri = read_property s ''my_like_uri'',
      my_repost_uri = read_property s ''my_repost_uri''\<rparr>"

text \<open>
  \<^verbatim>\<open>getTimeline(algorithm, limit, cursor)\<close>. The session and the agent's response are
  inputs. Without a session it throws; a rejected request is rethrown with a message; a
  response is mapped item by item:
  \<^verbatim>\<open>const items = response.data.feed.map(transformAtprotoPostToEnaforeStatus)\<close>, and
  returned with \<^verbatim>\<open>headers._atproto_cursor = response.data.cursor\<close>.
\<close>

record feed_response =
  feed :: "feed_view_post option list"
  cursor :: "string option"

record timeline_result =
  items :: "status option list"
  atproto_cursor :: "string option"

definition getTimeline ::
  "string option \<Rightarrow> feed_response outcome \<Rightarrow> string + timeline_result" where
  "getTimeline sessionDid response =
     (case sessionDid of
        None \<Rightarrow> Inl ''No active session. Please login first.''
      | Some d \<Rightarrow>
          (case response of
             Rejected msg \<Rightarrow> Inl msg
           | Resolved r \<Rightarrow>
               Inr \<lparr>items = map transformAtprotoPostToEnaforeStatus (feed r),
                    atproto_cursor = cursor r\<rparr>))"

section \<open>Local deletion (\<^verbatim>\<open>_actions/deleteStatuses.js\<close>)\<close>

text \<open>
  Modelled from the spec: the declaration of a timeline item summary
  (\<^verbatim>\<open>_utils/timelineItemToSummary.ts\<close>) is outside the files embedded here. The spec gives
  it as \<^verbatim>\<open>{id, sortKey, type}\<close>, the sort key a comparable value
  derived from the creation time.
\<close>

record summary =
  summary_id :: string
  sortKey :: nat
  summary_type :: string

text \<open>
  The store keeps, per instance and per timeline name, the list under
  \<^verbatim>\<open>timelineItemSummaries\<close> and the one under \<^verbatim>\<open>timelineItemSummariesToAdd\<close>;
  \<^verbatim>\<open>store.getAllTimelineData(instanceName, key)\<close> is the map from timeline names to lists
  and \<^verbatim>\<open>store.setForTimeline\<close> writes one entry.
\<close>

type_synonym timeline_data = "string \<Rightarrow> string \<Rightarrow> summary list option"

record timelines_store =
  timelineItemSummaries :: timeline_data
  timelineItemSummariesToAdd :: timeline_data

text \<open>
  \<^verbatim>\<open>filterItemIdsFromTimelines(instanceName, timelineFilter, idFilter)\<close>: under both keys,
  every timeline of the instance that passes \<^verbatim>\<open>timelineFilter\<close> keeps the summaries whose
  id passes \<^verbatim>\<open>idFilter\<close>. (The write is skipped when the filtered list equals the old one.)
\<close>

definition filter_timeline_data ::
  "timeline_data \<Rightarrow> string \<Rightarrow> (string \<Rightarrow> bool) \<Rightarrow> (string \<Rightarrow> bool) \<Rightarrow> timeline_data" where
  "filter_timeline_data d instanceName timelineFilter idFilter =
     (\<lambda>i timelineName.
        if i = instanceName
        then (case d i timelineName of
                None \<Rightarrow> None
              | Some summaries \<Rightarrow>
                  if \<not> timelineFilter timelineName then Some summaries
                  else Some (filter (\<lambda>s. idFilter (summary_id s)) summaries))
        else d i timelineName)"

definition filterItemIdsFromTimelines ::
  "timelines_store \<Rightarrow> string \<Rightarrow> (string \<Rightarrow> bool) \<Rightarrow> (string \<Rightarrow> bool) \<Rightarrow> timelines_store" where
  "filterItemIdsFromTimelines s instanceName timelineFilter idFilter =
     s\<lparr>timelineItemSummaries :=
          filter_timeline_data (timelineItemSummaries s) instanceName timelineFilter idFilter,
       timelineItemSummariesToAdd :=
          filter_timeline_data (timelineItemSummariesToAdd s) instanceName timelineFilter idFilter\<rparr>"

definition deleteStatusIdsFromStore :: "timelines_store \<Rightarrow> string \<Rightarrow> string list \<Rightarrow> timelines_store" where
  "deleteStatusIdsFromStore s instanceName idsToDelete =
     filterItemIdsFromTimelines s instanceName
       (\<lambda>timelineName. timelineName \<noteq> ''notifications'')
       (\<lambda>i. i \<notin> set idsToDelete)"

definition deleteNotificationIdsFromStore :: "timelines_store \<Rightarrow> string \<Rightarrow> string list \<Rightarrow> timelines_store" where
  "deleteNotificationIdsFromStore s instanceName idsToDelete =
     filterItemIdsFromTimelines s instanceName
       (\<lambda>timelineName. timelineName = ''notifications'')
       (\<lambda>i. i \<notin> set idsToDelete)"

text \<open>
  The database. For ATProto, per PDS host: the posts store keyed by post URI, and the
  timelines store whose keys are \<^verbatim>\<open>feedUri + '\u0000' + createdAt + '\u0000' + postUri\<close> and
  whose values are post URIs. For ActivityPub,
  \<^verbatim>\<open>database.deleteStatusesAndNotifications\<close> is defined outside the files embedded here:
  its calls are logged with their arguments.
\<close>

record database =
  atproto_posts :: "string \<Rightarrow> string \<Rightarrow> post_status option"
  atproto_timelines :: "string \<Rightarrow> string \<Rightarrow> string option"
  ap_delete_calls :: "(string \<times> string list \<times> string list) list"

text \<open>
  \<^verbatim>\<open>deleteAtprotoPost(pdsHostname, postUri)\<close>: rejects on a falsy URI before touching the
  database. Else it deletes the entry of the posts store and awaits that; the next statement
  opens a transaction on \<^verbatim>\<open>ATPROTO_TIMELINES_STORE\<close>, a name the module does not import
  (it imports \<^verbatim>\<open>ATPROTO_POSTS_STORE\<close> and four index names), so evaluating the argument
  throws and the promise rejects: the rows of the timelines store are left as they were.
  The result is the database afterwards and the rejection.
\<close>

definition deleteAtprotoPost :: "database \<Rightarrow> string \<Rightarrow> string \<Rightarrow> database \<times> string option" where
  "deleteAtprotoPost db pdsHostname postUri =
     (if postUri = [] then (db, Some ''Post URI is required for deletion.'')
      else (db\<lparr>atproto_posts :=
                 (\<lambda>h u. if h = pdsHostname \<and> u = postUri then None else atproto_posts db h u)\<rparr>,
            Some ''ReferenceError: ATPROTO_TIMELINES_STORE is not defined''))"

record world =
  the_store :: timelines_store
  the_database :: database

text \<open>
  The two lookups of \<^verbatim>\<open>./statuses.js\<close> that \<^verbatim>\<open>doDeleteStatus\<close> awaits are inputs:
  the ids of the statuses that reblogged this one (entries may be falsy, \<open>None\<close>), and the
  ids of the notifications for a list of statuses.
\<close>

record lookups =
  getIdsThatRebloggedThisStatus :: "string \<Rightarrow> string \<Rightarrow> string option list"
  getNotificationIdsForStatuses :: "string \<Rightarrow> string list \<Rightarrow> string list"

text \<open>
  \<^verbatim>\<open>Array.from(new Set(xs))\<close>: a set keeps its elements in insertion order, an element that
  is already in the set is not inserted again, so each value stays at its first
  occurrence. \<open>set_from seen\<close> is the loop, \<open>seen\<close> the values inserted so far.
\<close>

fun set_from :: "string list \<Rightarrow> string list \<Rightarrow> string list" where
  "set_from seen [] = []"
| "set_from seen (x # xs) =
     (if x \<in> set seen then set_from seen xs else x # set_from (x # seen) xs)"

definition array_from_set :: "string list \<Rightarrow> string list" where
  "array_from_set xs = set_from [] xs"

text \<open>\<^verbatim>\<open>Array.from(new Set([statusId].concat(rebloggedIds).filter(Boolean)))\<close>.\<close>

definition statusIdsToDelete :: "string \<Rightarrow> string option list \<Rightarrow> string list" where
  "statusIdsToDelete statusId rebloggedIds =
     array_from_set (map or_empty (filter truthy (Some statusId # rebloggedIds)))"

definition deleteStatusesAndNotifications ::
  "world \<Rightarrow> string \<Rightarrow> string list \<Rightarrow> string list \<Rightarrow> world" where
  "deleteStatusesAndNotifications w instanceName statusIds notificationIds =
     \<lparr>the_store =
        deleteNotificationIdsFromStore
          (deleteStatusIdsFromStore (the_store w) instanceName statusIds)
          instanceName notificationIds,
      the_database =
        (the_database w)\<lparr>ap_delete_calls :=
           ap_delete_calls (the_database w) @ [(instanceName, statusIds, notificationIds)]\<rparr>\<rparr>"

text \<open>
  \<^verbatim>\<open>doDeleteStatus(instanceName, statusId, protocol)\<close>. \<open>pdsHostname\<close> is the host name the
  source derives from the store and the agent. On ATProto the store is filtered first,
  then \<^verbatim>\<open>deleteAtprotoPost\<close> is awaited; its rejection is the rejection of
  \<^verbatim>\<open>doDeleteStatus\<close>. The result is the world afterwards and the rejection, if any.
\<close>

definition doDeleteStatus ::
  "lookups \<Rightarrow> string \<Rightarrow> world \<Rightarrow> string \<Rightarrow> string \<Rightarrow> protocol \<Rightarrow> world \<times> string option" where
  "doDeleteStatus lk pdsHostname w instanceName statusId protocol =
     (if protocol = Atproto
      then (let s' = deleteStatusIdsFromStore (the_store w) instanceName [statusId];
                (db', rejection) = deleteAtprotoPost (the_database w) pdsHostname statusId
            in (\<lparr>the_store = s', the_database = db'\<rparr>, rejection))
      else (let rebloggedIds = getIdsThatRebloggedThisStatus lk instanceName statusId;
                ids = statusIdsToDelete statusId rebloggedIds;
                notificationIdsToDelete =
                  array_from_set (getNotificationIdsForStatuses lk instanceName ids)
            in (deleteStatusesAndNotifications w instanceName ids notificationIdsToDelete, None)))"

section \<open>Feed cursors (\<^verbatim>\<open>_database/atprotoFeeds.js\<close>, \<^verbatim>\<open>_actions/timeline.js\<close>)\<close>

text \<open>
  A cursor value is a string, \<^verbatim>\<open>undefined\<close> (no further page) or \<^verbatim>\<open>null\<close>.
\<close>

datatype jsval = Undefined | Null | Str string

text \<open>
  The cursors store of one database is keyed by the \<^verbatim>\<open>feedUri\<close> property of the record
  (\<^verbatim>\<open>keyPath: 'feedUri'\<close>). There is one database per PDS host name.
\<close>

record cursor_record =
  rec_feedUri :: string
  rec_cursor :: jsval

type_synonym cursor_db = "string \<Rightarrow> string \<Rightarrow> cursor_record option"

text \<open>
  \<^verbatim>\<open>setAtprotoFeedCursor(pdsHostname, feedUri, cursor)\<close> rejects on a falsy \<^verbatim>\<open>feedUri\<close> and
  else puts \<^verbatim>\<open>cloneForStorage({ feedUri, cursor })\<close>. \<^verbatim>\<open>cloneForStorage\<close> comes from
  \<^verbatim>\<open>_database/helpers.js\<close>, outside the files embedded here: it is the parameter
  \<open>clone\<close>.
\<close>

definition setAtprotoFeedCursor ::
  "(cursor_record \<Rightarrow> cursor_record) \<Rightarrow> cursor_db \<Rightarrow> string \<Rightarrow> string \<Rightarrow> jsval
     \<Rightarrow> string + cursor_db" where
  "setAtprotoFeedCursor clone db pdsHostname feedUri c =
     (if feedUri = [] then Inl ''feedUri is required for setting cursor.''
      else (let r = clone \<lparr>rec_feedUri = feedUri, rec_cursor = c\<rparr>
            in Inr (\<lambda>h k. if h = pdsHostname \<and> k = rec_feedUri r then Some r else db h k)))"

text \<open>
  \<^verbatim>\<open>getAtprotoFeedCursor(pdsHostname, feedUri)\<close>: the \<^verbatim>\<open>cursor\<close> of the record, or
  \<^verbatim>\<open>undefined\<close> when there is no record.
\<close>

definition getAtprotoFeedCursor :: "cursor_db \<Rightarrow> string \<Rightarrow> string \<Rightarrow> jsval" where
  "getAtprotoFeedCursor db pdsHostname feedUri =
     (case db pdsHostname feedUri of None \<Rightarrow> Undefined | Some r \<Rightarrow> rec_cursor r)"

text \<open>
  The key under which \<^verbatim>\<open>fetchTimelineItemsFromNetwork\<close> and \<^verbatim>\<open>fetchPagedItems\<close> keep the
  cursor of a timeline: \<^verbatim>\<open>atprotoFeedIdentifier\<close>.
\<close>

definition whats_hot :: string where
  "whats_hot = ''at://did:plc:z72i7hdynmk6r22z27h6tvur/app.bsky.feed.generator/whats-hot''"

definition atprotoFeedIdentifier :: "string \<Rightarrow> string" where
  "atprotoFeedIdentifier timelineName =
     (if prefix ''account/'' timelineName
      then ''actor_feed:'' @ takeWhile (\<lambda>c. c \<noteq> CHR ''/'') (drop 8 timelineName)
      else if timelineName = ''home'' then ''home_following''
      else if timelineName = ''federated'' then whats_hot
      else if prefix ''at://'' timelineName then timelineName
      else ''home_following'')"

text \<open>
  \<^verbatim>\<open>new URL(atprotoAgent.service.toString()).hostname\<close> as \<^verbatim>\<open>_actions/timeline.js\<close>
  evaluates it. The imports of that module bind no \<^verbatim>\<open>atprotoAgent\<close> and the module
  declares none, so the evaluation throws. \<open>Inl\<close> is the exception.
\<close>

definition pdsHostname_in_timeline_js :: "string + string" where
  "pdsHostname_in_timeline_js = Inl ''ReferenceError: atprotoAgent is not defined''"

text \<open>
  Reading the cursor, lines 166 to 174 of \<^verbatim>\<open>fetchTimelineItemsFromNetwork\<close>:
  \<^verbatim>\<open>cursorToUse\<close> is the in-memory value \<^verbatim>\<open>lastTimelineItemId\<close> unless that is falsy and
  not a string; then the host name is computed, the database is asked, and its answer is
  used when it is a string.
\<close>

definition cursorToUse :: "cursor_db \<Rightarrow> string \<Rightarrow> jsval \<Rightarrow> string + jsval" where
  "cursorToUse db timelineName lastTimelineItemId =
     (if lastTimelineItemId = Undefined \<or> lastTimelineItemId = Null
      then (case pdsHostname_in_timeline_js of
              Inl e \<Rightarrow> Inl e
            | Inr pdsHostname \<Rightarrow>
                (case getAtprotoFeedCursor db pdsHostname (atprotoFeedIdentifier timelineName) of
                   Str s \<Rightarrow> Inr (Str s)
                 | _ \<Rightarrow> Inr lastTimelineItemId))
      else Inr lastTimelineItemId)"

text \<open>
  Writing the cursor, lines 180 to 183: the store's \<^verbatim>\<open>timelineNextPageId\<close> of the timeline
  is set, then the host name is computed, then the database is written. The result is the
  state afterwards and the exception, if any.
\<close>

record cursor_state =
  timelineNextPageId :: "string \<Rightarrow> string \<Rightarrow> jsval"
  feed_cursors :: cursor_db

definition storeNewCursor ::
  "(cursor_record \<Rightarrow> cursor_record) \<Rightarrow> cursor_state \<Rightarrow> string \<Rightarrow> string \<Rightarrow> jsval
     \<Rightarrow> cursor_state \<times> string option" where
  "storeNewCursor clone cs instanceName timelineName newApiCursor =
     (let cs' = cs\<lparr>timelineNextPageId :=
                     (\<lambda>i t. if i = instanceName \<and> t = timelineName then newApiCursor
                            else timelineNextPageId cs i t)\<rparr>
      in case pdsHostname_in_timeline_js of
           Inl e \<Rightarrow> (cs', Some e)
         | Inr pdsHostname \<Rightarrow>
             (case setAtprotoFeedCursor clone (feed_cursors cs') pdsHostname
                     (atprotoFeedIdentifier timelineName) newApiCursor of
                Inl e \<Rightarrow> (cs', Some e)
              | Inr db' \<Rightarrow> (cs'\<lparr>feed_cursors := db'\<rparr>, None)))"

section \<open>Timeline merges (\<^verbatim>\<open>_actions/timeline.js\<close>)\<close>

text \<open>
  Modelled from the spec: \<^verbatim>\<open>uniqById\<close> of \<^verbatim>\<open>_utils/lodash-lite.js\<close> is defined outside
  the files embedded here. The spec calls it de-duplication by id of the concatenated or merged list; as
  in lodash's \<^verbatim>\<open>uniqBy\<close>, the first summary of each id is kept, in the order of the list.
  \<open>uniq_from seen\<close> is the loop, \<open>seen\<close> the ids met so far.
\<close>

fun uniq_from :: "string list \<Rightarrow> summary list \<Rightarrow> summary list" where
  "uniq_from seen [] = []"
| "uniq_from seen (x # xs) =
     (if summary_id x \<in> set seen then uniq_from seen xs
      else x # uniq_from (summary_id x # seen) xs)"

definition uniqById :: "summary list \<Rightarrow> summary list" where
  "uniqById xs = uniq_from [] xs"

text \<open>
  Modelled from the spec: \<^verbatim>\<open>concat\<close> of \<^verbatim>\<open>_utils/arrays.js\<close> is defined outside the files
  embedded here. The spec has the paged merge concatenate, then de-duplicate:
  \<^verbatim>\<open>concat(oldSummaries || [], newSummaries)\<close> is one list after the other.
\<close>

definition concat_arrays :: "summary list \<Rightarrow> summary list \<Rightarrow> summary list" where
  "concat_arrays xs ys = xs @ ys"

text \<open>
  Modelled from the spec: \<^verbatim>\<open>mergeArrays(left, right, comparator)\<close> of \<^verbatim>\<open>_utils/arrays.js\<close>
  is defined outside the files embedded here. The spec has it merge the old list (left)
  and the new batch (right) in the order of the comparator, the new summary winning where an old and
  a new one compare equal. The comparator is applied to the heads as
  \<^verbatim>\<open>comparator(right, left)\<close>: a positive result puts the new one first.
  \<^verbatim>\<open>compareTimelineItemSummaries\<close> (\<^verbatim>\<open>_utils/statusIdSorting.js\<close>) is outside them
  too; it is the parameter \<open>cmp\<close>.
\<close>

fun mergeArrays ::
  "(summary \<Rightarrow> summary \<Rightarrow> int) \<Rightarrow> summary list \<Rightarrow> summary list \<Rightarrow> summary list" where
  "mergeArrays cmp [] rs = rs"
| "mergeArrays cmp (l # ls) [] = l # ls"
| "mergeArrays cmp (l # ls) (r # rs) =
     (if cmp r l = 0 then r # mergeArrays cmp ls rs
      else if cmp r l > 0 then r # mergeArrays cmp (l # ls) rs
      else l # mergeArrays cmp ls (r # rs))"

text \<open>
  \<^verbatim>\<open>const [type, statusId] = timelineName.split('/')\<close>: the text before the first slash, and
  the text between the first and the second slash when there is a first one.
\<close>

definition timeline_type :: "string \<Rightarrow> string" where
  "timeline_type timelineName = takeWhile (\<lambda>c. c \<noteq> CHR ''/'') timelineName"

definition timeline_statusId :: "string \<Rightarrow> string option" where
  "timeline_statusId timelineName =
     (case dropWhile (\<lambda>c. c \<noteq> CHR ''/'') timelineName of
        [] \<Rightarrow> None
      | c # rest \<Rightarrow> Some (takeWhile (\<lambda>c. c \<noteq> CHR ''/'') rest))"

text \<open>
  What the store holds for one timeline of one instance: the summaries, \<open>None\<close> while the
  timeline has never been filled, and the stale flag.
\<close>

record timeline_state =
  summaries :: "summary list option"
  summariesAreStale :: "bool option"

text \<open>
  The two sorts of \<^verbatim>\<open>_utils/sortItemSummaries.ts\<close> are defined outside the files embedded
  here; they are the fields of \<open>sorters\<close>, any functions.
\<close>

record sorters =
  sortItemSummariesForNotificationBatch :: "summary list \<Rightarrow> summary list"
  sortItemSummariesForThread :: "summary list \<Rightarrow> string option \<Rightarrow> summary list"

definition or_nil :: "summary list option \<Rightarrow> summary list" where
  "or_nil v = (case v of None \<Rightarrow> [] | Some xs \<Rightarrow> xs)"

text \<open>
  \<^verbatim>\<open>addTimelineItemSummaries(instanceName, timelineName, newSummaries, newStale)\<close>, the
  merge of a background refresh. The summaries are written when they differ from the old
  value (\<^verbatim>\<open>isEqual\<close>), the stale flag when it differs.
\<close>

definition addTimelineItemSummaries ::
  "sorters \<Rightarrow> (summary \<Rightarrow> summary \<Rightarrow> int) \<Rightarrow> timeline_state \<Rightarrow> string \<Rightarrow> summary list \<Rightarrow> bool
     \<Rightarrow> timeline_state" where
  "addTimelineItemSummaries so cmp st timelineName newSummaries newStale =
     (let type = timeline_type timelineName;
          statusId = timeline_statusId timelineName;
          oldSummaries = summaries st;
          oldStale = summariesAreStale st;
          newSummaries' = (if type = ''notifications''
                           then sortItemSummariesForNotificationBatch so newSummaries
                           else newSummaries);
          mergedSummaries = uniqById (mergeArrays cmp (or_nil oldSummaries) newSummaries');
          mergedSummaries' = (if type = ''status''
                              then sortItemSummariesForThread so mergedSummaries statusId
                              else mergedSummaries);
          st' = (if oldSummaries \<noteq> Some mergedSummaries'
                 then st\<lparr>summaries := Some mergedSummaries'\<rparr> else st)
      in if oldStale \<noteq> Some newStale then st'\<lparr>summariesAreStale := Some newStale\<rparr> else st')"

text \<open>
  \<^verbatim>\<open>addPagedTimelineItemSummaries(instanceName, timelineName, newSummaries)\<close>, the merge
  of a page of older items.
\<close>

definition addPagedTimelineItemSummaries ::
  "sorters \<Rightarrow> timeline_state \<Rightarrow> string \<Rightarrow> summary list \<Rightarrow> timeline_state" where
  "addPagedTimelineItemSummaries so st timelineName newSummaries =
     (let type = timeline_type timelineName;
          statusId = timeline_statusId timelineName;
          oldSummaries = summaries st;
          newSummaries' = (if type = ''notifications''
                           then sortItemSummariesForNotificationBatch so newSummaries
                           else newSummaries);
          mergedSummaries = uniqById (concat_arrays (or_nil oldSummaries) newSummaries');
          mergedSummaries' = (if type = ''status''
                              then sortItemSummariesForThread so mergedSummaries statusId
                              else mergedSummaries)
      in if oldSummaries \<noteq> Some mergedSummaries'
         then st\<lparr>summaries := Some mergedSummaries'\<rparr> else st)"



section \<open>Theorems about the like and repost actions\<close>

text \<open>
  C10. When the store reports offline, \<^verbatim>\<open>setFavorited\<close> and \<^verbatim>\<open>setReblogged\<close> show one
  toast and return: the toast is their only effect, so there is no network call, no
  optimistic change and no store or database write, and the flags of every status are what
  they were.
\<close>

theorem offline_only_toast:
  assumes "\<not> online st"
  shows "setFavorited st statusId v net db =
           [Toast (if v then ''intl.cannotFavoriteOffline'' else ''intl.cannotUnfavoriteOffline'')]
       \<and> setReblogged st statusId v net db =
           [Toast (if v then ''intl.cannotReblogOffline'' else ''intl.cannotUnreblogOffline'')]
       \<and> list_all is_toast (setFavorited st statusId v net db)
       \<and> list_all is_toast (setReblogged st statusId v net db)
       \<and> run_actions (setFavorited st statusId v net db) f = f
       \<and> run_actions (setReblogged st statusId v net db) f = f"
  using assms by (simp add: setFavorited_def setReblogged_def run_actions_def)

theorem offline_only_toast_witness:
  "setFavorited
     \<lparr>online = False, currentInstance = ''bsky.social'', accessToken = ''t'',
      currentAccountProtocol = Atproto, getPostByUri = (\<lambda>u. None)\<rparr>
     (IdObj \<lparr>uri = Some ''at://did:plc:a/app.bsky.feed.post/1'', cid = Some ''c1'',
             likeUri = None, repostUri = None\<rparr>)
     True (Resolved (Some ''at://did:plc:me/app.bsky.feed.like/7'')) (Resolved ())
   = [Toast ''intl.cannotFavoriteOffline'']"
  using offline_only_toast [of
     "\<lparr>online = False, currentInstance = ''bsky.social'', accessToken = ''t'',
      currentAccountProtocol = Atproto, getPostByUri = (\<lambda>u. None)\<rparr>"
     "IdObj \<lparr>uri = Some ''at://did:plc:a/app.bsky.feed.post/1'', cid = Some ''c1'',
             likeUri = None, repostUri = None\<rparr>"
     True "Resolved (Some ''at://did:plc:me/app.bsky.feed.like/7'')" "Resolved ()"]
  by simp

text \<open>
  C7. An un-repost (un-like) of an ATProto post whose \<^verbatim>\<open>statusId\<close> object has no
  \<^verbatim>\<open>repostUri\<close> (\<^verbatim>\<open>likeUri\<close>), the post being cached as the status the normalizer built.
  The cached status keeps the viewer's reference under \<^verbatim>\<open>myRepostUri\<close> (\<^verbatim>\<open>myLikeUri\<close>);
  the action reads \<^verbatim>\<open>my_repost_uri\<close> (\<^verbatim>\<open>my_like_uri\<close>), which no status has. So whatever
  reference the cached status holds, the error toast is the only effect: no
  \<^verbatim>\<open>deleteRepost\<close> (\<^verbatim>\<open>deleteLike\<close>) is requested.
\<close>

theorem cached_reference_not_recovered:
  assumes "online st" and "currentAccountProtocol st = Atproto"
    and "truthy (uri b)" and "truthy (cid b)"
    and "getPostByUri st (uri b) = Some (cached_post_of_status s)"
  shows "(\<not> truthy (repostUri b) \<longrightarrow>
           setReblogged st (IdObj b) False net db
             = [Toast ''Error: Cannot un-repost, repost information missing.''])
       \<and> (\<not> truthy (likeUri b) \<longrightarrow>
           setFavorited st (IdObj b) False net db
             = [Toast ''Error: Cannot unlike, like information missing.''])"
proof -
  have c: "my_repost_uri (cached_post_of_status s) = None"
          "my_like_uri (cached_post_of_status s) = None"
    by (simp_all add: cached_post_of_status_def read_property_def)
  show ?thesis
    using assms c by (simp add: setReblogged_def setFavorited_def truthy_def)
qed

theorem cached_reference_not_recovered_witness:
  "map_option s_myRepostUri
     (transformAtprotoPostToEnaforeStatus
        (Some \<lparr>fvp_post = Some
                 \<lparr>post_uri = ''at://did:plc:a/app.bsky.feed.post/1'', post_cid = Some ''c1'',
                  post_author = Some \<lparr>did = ''did:plc:a'', handle = ''a.bsky.social'',
                                      profile_labels = None\<rparr>,
                  record_text = Some ''hello'', record_createdAt = Some ''2024-01-01T00:00:00Z'',
                  post_indexedAt = None, post_replyCount = None, post_repostCount = Some 1,
                  post_likeCount = None, viewer_like = None,
                  viewer_repost = Some ''at://did:plc:me/app.bsky.feed.repost/9'',
                  post_labels = None, post_reply = None\<rparr>,
               fvp_reply = None, fvp_reason = None\<rparr>))
   = Some (Some ''at://did:plc:me/app.bsky.feed.repost/9'')
   \<and> setReblogged
        \<lparr>online = True, currentInstance = ''bsky.social'', accessToken = ''t'',
         currentAccountProtocol = Atproto,
         getPostByUri = (\<lambda>u. map_option cached_post_of_status
           (transformAtprotoPostToEnaforeStatus
              (Some \<lparr>fvp_post = Some
                 \<lparr>post_uri = ''at://did:plc:a/app.bsky.feed.post/1'', post_cid = Some ''c1'',
                  post_author = Some \<lparr>did = ''did:plc:a'', handle = ''a.bsky.social'',
                                      profile_labels = None\<rparr>,
                  record_text = Some ''hello'', record_createdAt = Some ''2024-01-01T00:00:00Z'',
                  post_indexedAt = None, post_replyCount = None, post_repostCount = Some 1,
                  post_likeCount = None, viewer_like = None,
                  viewer_repost = Some ''at://did:plc:me/app.bsky.feed.repost/9'',
                  post_labels = None, post_reply = None\<rparr>,
               fvp_reply = None, fvp_reason = None\<rparr>)))\<rparr>
        (IdObj \<lparr>uri = Some ''at://did:plc:a/app.bsky.feed.post/1'', cid = Some ''c1'',
                likeUri = None, repostUri = None\<rparr>)
        False (Resolved None) (Resolved ())
   = [Toast ''Error: Cannot un-repost, repost information missing.'']"
proof -
  let ?fvp = "\<lparr>fvp_post = Some
                 \<lparr>post_uri = ''at://did:plc:a/app.bsky.feed.post/1'', post_cid = Some ''c1'',
                  post_author = Some \<lparr>did = ''did:plc:a'', handle = ''a.bsky.social'',
                                      profile_labels = None\<rparr>,
                  record_text = Some ''hello'', record_createdAt = Some ''2024-01-01T00:00:00Z'',
                  post_indexedAt = None, post_replyCount = None, post_repostCount = Some 1,
                  post_likeCount = None, viewer_like = None,
                  viewer_repost = Some ''at://did:plc:me/app.bsky.feed.repost/9'',
                  post_labels = None, post_reply = None\<rparr>,
               fvp_reply = None, fvp_reason = None\<rparr>"
  let ?st = "\<lparr>online = True, currentInstance = ''bsky.social'', accessToken = ''t'',
         currentAccountProtocol = Atproto,
         getPostByUri = (\<lambda>u. map_option cached_post_of_status
           (transformAtprotoPostToEnaforeStatus (Some ?fvp)))\<rparr>"
  let ?b = "\<lparr>uri = Some ''at://did:plc:a/app.bsky.feed.post/1'', cid = Some ''c1'',
                likeUri = None, repostUri = None\<rparr>"
  obtain s where s: "transformAtprotoPostToEnaforeStatus (Some ?fvp) = Some s"
    by (simp add: transformAtprotoPostToEnaforeStatus_def)
  have m: "map_option s_myRepostUri (transformAtprotoPostToEnaforeStatus (Some ?fvp))
             = Some (Some ''at://did:plc:me/app.bsky.feed.repost/9'')"
    by (simp add: transformAtprotoPostToEnaforeStatus_def transform_post_def
          Let_def post_status.extend_def split: prod.splits)
  have h1: "online ?st" by simp
  have h2: "currentAccountProtocol ?st = Atproto" by simp
  have h3: "truthy (uri ?b)" by (simp add: truthy_def)
  have h4: "truthy (cid ?b)" by (simp add: truthy_def)
  have h5: "getPostByUri ?st (uri ?b) = Some (cached_post_of_status s)"
    using s by simp
  have n: "\<not> truthy (repostUri ?b)" by (simp add: truthy_def)
  have "setReblogged ?st (IdObj ?b) False (Resolved None) (Resolved ())
          = [Toast ''Error: Cannot un-repost, repost information missing.'']"
    using cached_reference_not_recovered [OF h1 h2 h3 h4 h5, THEN conjunct1] n by (rule mp)
  with m show ?thesis by (rule conjI)
qed

text \<open>
  C6. The rollback after a failed like on an ATProto account. The optimistic update is
  made under \<^verbatim>\<open>statusId.uri\<close>, the rollback under the whole \<^verbatim>\<open>statusId\<close> object, so the flag
  of the post is still the optimistic \<open>True\<close> after the rollback; it was \<open>False\<close> before.
\<close>

theorem rollback_misses_optimistic_target:
  "setFavorited
     \<lparr>online = True, currentInstance = ''bsky.social'', accessToken = ''t'',
      currentAccountProtocol = Atproto, getPostByUri = (\<lambda>u. None)\<rparr>
     (IdObj \<lparr>uri = Some ''at://did:plc:a/app.bsky.feed.post/1'', cid = Some ''c1'',
             likeUri = None, repostUri = None\<rparr>)
     True (Rejected ''Network error'') (Resolved ())
   = [LikePost (Some ''at://did:plc:a/app.bsky.feed.post/1'') (Some ''c1''),
      StoreSetStatusFavorited ''bsky.social'' (IdStr ''at://did:plc:a/app.bsky.feed.post/1'')
        True Atproto False,
      ToastIntl ''intl.unableToFavorite'' ''Network error'',
      StoreSetStatusFavorited ''bsky.social''
        (IdObj \<lparr>uri = Some ''at://did:plc:a/app.bsky.feed.post/1'', cid = Some ''c1'',
                likeUri = None, repostUri = None\<rparr>)
        False Atproto True]
   \<and> favorites
       (run_actions
         (setFavorited
           \<lparr>online = True, currentInstance = ''bsky.social'', accessToken = ''t'',
            currentAccountProtocol = Atproto, getPostByUri = (\<lambda>u. None)\<rparr>
           (IdObj \<lparr>uri = Some ''at://did:plc:a/app.bsky.feed.post/1'', cid = Some ''c1'',
                   likeUri = None, repostUri = None\<rparr>)
           True (Rejected ''Network error'') (Resolved ()))
         \<lparr>favorites = (\<lambda>k. None)(IdStr ''at://did:plc:a/app.bsky.feed.post/1'' \<mapsto> False),
          reblogs = (\<lambda>k. None)\<rparr>)
       (IdStr ''at://did:plc:a/app.bsky.feed.post/1'')
     = Some True"
  by (simp add: setFavorited_def favorite_rest_def favorite_undo_def truthy_def
        idForStoreModification_def run_actions_def Let_def)

theorem rollback_misses_optimistic_target_witness:
  "favorites
       (run_actions
         (setFavorited
           \<lparr>online = True, currentInstance = ''bsky.social'', accessToken = ''t'',
            currentAccountProtocol = Atproto, getPostByUri = (\<lambda>u. None)\<rparr>
           (IdObj \<lparr>uri = Some ''at://did:plc:a/app.bsky.feed.post/1'', cid = Some ''c1'',
                   likeUri = None, repostUri = None\<rparr>)
           True (Rejected ''Network error'') (Resolved ()))
         \<lparr>favorites = (\<lambda>k. None)(IdStr ''at://did:plc:a/app.bsky.feed.post/1'' \<mapsto> False),
          reblogs = (\<lambda>k. None)\<rparr>)
       (IdStr ''at://did:plc:a/app.bsky.feed.post/1'')
     \<noteq> Some False"
  using rollback_misses_optimistic_target [THEN conjunct2]
  by (simp only: option.inject simp_thms)

section \<open>Theorems about the normalizer\<close>

text \<open>
  C4. A feed item whose reason is a repost of post \<open>p\<close> by actor \<open>q\<close> is normalized to a
  status whose id is \<^verbatim>\<open>p.uri\<close>: the id of \<open>p\<close> itself when it comes with no reason, and the
  id of the repost of \<open>p\<close> by any other actor. The later revision of the function, the one
  whose repost branch holds the id \<^verbatim>\<open>"repost:" + q.did + ":" + p.uri\<close>, throws on the same
  item before it reaches that branch.
\<close>

theorem repost_keeps_post_uri_as_id:
  assumes "post_author p = Some a"
  shows "map_option s_id (transformAtprotoPostToEnaforeStatus
            (Some \<lparr>fvp_post = Some p, fvp_reply = r, fvp_reason = Some (ReasonRepost q t)\<rparr>))
           = Some (post_uri p)
       \<and> map_option s_id (transformAtprotoPostToEnaforeStatus
            (Some \<lparr>fvp_post = Some p, fvp_reply = r', fvp_reason = None\<rparr>))
           = Some (post_uri p)
       \<and> transformAtprotoPostToEnaforeStatus_later
            (Some \<lparr>fvp_post = Some p, fvp_reply = r, fvp_reason = Some (ReasonRepost q t)\<rparr>)
           = Inl ''ReferenceError: transformProfileViewBasicToEnaforeAccount is not defined''"
  using assms
  by (simp add: transformAtprotoPostToEnaforeStatus_def transform_post_def
        transformAtprotoPostToEnaforeStatus_later_def
        Let_def post_status.extend_def split: prod.splits)

theorem repost_keeps_post_uri_as_id_witness:
  "map_option s_id (transformAtprotoPostToEnaforeStatus
      (Some \<lparr>fvp_post = Some
               \<lparr>post_uri = ''at://did:plc:a/app.bsky.feed.post/1'', post_cid = Some ''c1'',
                post_author = Some \<lparr>did = ''did:plc:a'', handle = ''a.bsky.social'',
                                    profile_labels = None\<rparr>,
                record_text = Some ''hello'', record_createdAt = Some ''2024-01-01T00:00:00Z'',
                post_indexedAt = None, post_replyCount = None, post_repostCount = Some 2,
                post_likeCount = None, viewer_like = None, viewer_repost = None,
                post_labels = None, post_reply = None\<rparr>,
             fvp_reply = None,
             fvp_reason = Some (ReasonRepost
               \<lparr>did = ''did:plc:q'', handle = ''q.bsky.social'', profile_labels = None\<rparr>
               (Some ''2024-01-02T00:00:00Z''))\<rparr>))
   = Some ''at://did:plc:a/app.bsky.feed.post/1''"
  using repost_keeps_post_uri_as_id [of
      "\<lparr>post_uri = ''at://did:plc:a/app.bsky.feed.post/1'', post_cid = Some ''c1'',
                post_author = Some \<lparr>did = ''did:plc:a'', handle = ''a.bsky.social'',
                                    profile_labels = None\<rparr>,
                record_text = Some ''hello'', record_createdAt = Some ''2024-01-01T00:00:00Z'',
                post_indexedAt = None, post_replyCount = None, post_repostCount = Some 2,
                post_likeCount = None, viewer_like = None, viewer_repost = None,
                post_labels = None, post_reply = None\<rparr>"
      "\<lparr>did = ''did:plc:a'', handle = ''a.bsky.social'', profile_labels = None\<rparr>"
      None
      "\<lparr>did = ''did:plc:q'', handle = ''q.bsky.social'', profile_labels = None\<rparr>"
      "Some ''2024-01-02T00:00:00Z''"]
  by simp

text \<open>
  C5. \<^verbatim>\<open>getTimeline\<close> on a feed of two items, the second without \<^verbatim>\<open>post\<close>: the normalizer
  returns \<^verbatim>\<open>null\<close> for the second, and the returned \<^verbatim>\<open>items\<close> still hold that \<^verbatim>\<open>null\<close>
  after the valid status; nothing filters it.
\<close>

theorem getTimeline_keeps_null_item:
  "(case getTimeline (Some ''did:plc:me'')
      (Resolved
        \<lparr>feed =
           [Some \<lparr>fvp_post = Some
               \<lparr>post_uri = ''at://did:plc:a/app.bsky.feed.post/1'', post_cid = Some ''c1'',
                post_author = Some \<lparr>did = ''did:plc:a'', handle = ''a.bsky.social'',
                                    profile_labels = None\<rparr>,
                record_text = Some ''hello'', record_createdAt = Some ''2024-01-01T00:00:00Z'',
                post_indexedAt = None, post_replyCount = None, post_repostCount = None,
                post_likeCount = None, viewer_like = None, viewer_repost = None,
                post_labels = None, post_reply = None\<rparr>,
              fvp_reply = None, fvp_reason = None\<rparr>,
            Some \<lparr>fvp_post = None, fvp_reply = None, fvp_reason = None\<rparr>],
         cursor = Some ''c1''\<rparr>) of
      Inl e \<Rightarrow> []
    | Inr res \<Rightarrow> map (map_option s_id) (items res))
   = [Some ''at://did:plc:a/app.bsky.feed.post/1'', None]"
  by (simp add: getTimeline_def transformAtprotoPostToEnaforeStatus_def transform_post_def
        Let_def post_status.extend_def split: prod.splits)

section \<open>Theorems about local deletion\<close>

lemma truthy_ids_set:
  "set (map or_empty (filter truthy xs)) = {x. x \<noteq> [] \<and> Some x \<in> set xs}"
  by (induction xs) (auto simp: truthy_def or_empty_def split: option.splits)

lemma set_from_set: "set (set_from seen xs) = set xs - set seen"
  by (induction xs arbitrary: seen) auto

lemma array_from_set_set: "set (array_from_set xs) = set xs"
  by (simp add: array_from_set_def set_from_set)

lemma statusIdsToDelete_set:
  "set (statusIdsToDelete S rs) = {x. x \<noteq> [] \<and> (x = S \<or> Some x \<in> set rs)}"
  unfolding statusIdsToDelete_def array_from_set_set truthy_ids_set by auto

lemma deleteAtprotoPost_rejects_after_post_delete:
  "postUri \<noteq> [] \<Longrightarrow>
   snd (deleteAtprotoPost db pdsHostname postUri)
     = Some ''ReferenceError: ATPROTO_TIMELINES_STORE is not defined''
   \<and> atproto_timelines (fst (deleteAtprotoPost db pdsHostname postUri)) = atproto_timelines db
   \<and> atproto_posts (fst (deleteAtprotoPost db pdsHostname postUri)) pdsHostname postUri = None"
  by (simp add: deleteAtprotoPost_def)

text \<open>
  A notification that references the deleted status stays in a cached timeline: the
  summary \<open>n1\<close> of the timeline \<^verbatim>\<open>notifications/mentions\<close> is the notification for the
  status \<open>s1\<close>, and it is still there after the ActivityPub deletion of \<open>s1\<close>, while the
  database is asked to delete \<open>n1\<close>. Notification ids are filtered from the timeline named
  \<^verbatim>\<open>notifications\<close> alone.
\<close>

theorem notification_survives_in_mentions_timeline:
  "timelineItemSummaries
     (the_store (fst
       (doDeleteStatus
          \<lparr>getIdsThatRebloggedThisStatus = (\<lambda>i s. []),
           getNotificationIdsForStatuses = (\<lambda>i ids. [''n1''])\<rparr>
          ''pds.example''
          \<lparr>the_store =
             \<lparr>timelineItemSummaries =
                (\<lambda>i t. if i = ''m.social'' \<and> t = ''notifications/mentions''
                       then Some [\<lparr>summary_id = ''n1'', sortKey = 5, summary_type = ''mention''\<rparr>]
                       else None),
              timelineItemSummariesToAdd = (\<lambda>i t. None)\<rparr>,
           the_database =
             \<lparr>atproto_posts = (\<lambda>h u. None), atproto_timelines = (\<lambda>h k. None),
              ap_delete_calls = []\<rparr>\<rparr>
          ''m.social'' ''s1'' ActivityPub)))
     ''m.social'' ''notifications/mentions''
   = Some [\<lparr>summary_id = ''n1'', sortKey = 5, summary_type = ''mention''\<rparr>]
   \<and> ap_delete_calls
     (the_database (fst
       (doDeleteStatus
          \<lparr>getIdsThatRebloggedThisStatus = (\<lambda>i s. []),
           getNotificationIdsForStatuses = (\<lambda>i ids. [''n1''])\<rparr>
          ''pds.example''
          \<lparr>the_store =
             \<lparr>timelineItemSummaries =
                (\<lambda>i t. if i = ''m.social'' \<and> t = ''notifications/mentions''
                       then Some [\<lparr>summary_id = ''n1'', sortKey = 5, summary_type = ''mention''\<rparr>]
                       else None),
              timelineItemSummariesToAdd = (\<lambda>i t. None)\<rparr>,
           the_database =
             \<lparr>atproto_posts = (\<lambda>h u. None), atproto_timelines = (\<lambda>h k. None),
              ap_delete_calls = []\<rparr>\<rparr>
          ''m.social'' ''s1'' ActivityPub)))
   = [(''m.social'', [''s1''], [''n1''])]"
  by (simp add: Let_def doDeleteStatus_def deleteStatusesAndNotifications_def
        deleteNotificationIdsFromStore_def deleteStatusIdsFromStore_def
        filterItemIdsFromTimelines_def filter_timeline_data_def
        statusIdsToDelete_def array_from_set_def truthy_def or_empty_def)

text \<open>
  C8. Local deletion of a non-empty id \<open>S\<close>. On ActivityPub the ids to delete are \<open>S\<close> and
  every id that reblogged it; the database is asked to delete exactly these statuses and
  the notifications for them, and is not changed otherwise; under either key, every
  timeline of the instance other than the one named \<^verbatim>\<open>notifications\<close> loses the summaries
  with one of these ids and nothing else, the timeline named \<^verbatim>\<open>notifications\<close> loses the
  summaries with the id of a notification for them and nothing else, and the timelines of
  other instances are as before. On ATProto every timeline of the instance other than
  \<^verbatim>\<open>notifications\<close> loses the summaries whose id is \<open>S\<close> and nothing else, the posts store
  loses the entry of \<open>S\<close> and nothing else, and no cascading database delete is issued.
\<close>

theorem local_deletion:
  assumes "S \<noteq> []"
  shows "the_database (fst (doDeleteStatus lk pds w inst S ActivityPub))
           = (the_database w)\<lparr>ap_delete_calls :=
                ap_delete_calls (the_database w)
                @ [(inst, statusIdsToDelete S (getIdsThatRebloggedThisStatus lk inst S),
                    array_from_set (getNotificationIdsForStatuses lk inst
                      (statusIdsToDelete S (getIdsThatRebloggedThisStatus lk inst S))))]\<rparr>
       \<and> set (statusIdsToDelete S (getIdsThatRebloggedThisStatus lk inst S))
           = {x. x \<noteq> [] \<and> (x = S \<or> Some x \<in> set (getIdsThatRebloggedThisStatus lk inst S))}
       \<and> (\<forall>i t. timelineItemSummaries
                    (the_store (fst (doDeleteStatus lk pds w inst S ActivityPub))) i t
                = (if i = inst
                   then map_option
                          (filter (\<lambda>x. summary_id x \<notin> set
                             (if t = ''notifications''
                              then getNotificationIdsForStatuses lk inst
                                     (statusIdsToDelete S (getIdsThatRebloggedThisStatus lk inst S))
                              else statusIdsToDelete S (getIdsThatRebloggedThisStatus lk inst S))))
                          (timelineItemSummaries (the_store w) i t)
                   else timelineItemSummaries (the_store w) i t))
       \<and> (\<forall>i t. timelineItemSummariesToAdd
                    (the_store (fst (doDeleteStatus lk pds w inst S ActivityPub))) i t
                = (if i = inst
                   then map_option
                          (filter (\<lambda>x. summary_id x \<notin> set
                             (if t = ''notifications''
                              then getNotificationIdsForStatuses lk inst
                                     (statusIdsToDelete S (getIdsThatRebloggedThisStatus lk inst S))
                              else statusIdsToDelete S (getIdsThatRebloggedThisStatus lk inst S))))
                          (timelineItemSummariesToAdd (the_store w) i t)
                   else timelineItemSummariesToAdd (the_store w) i t))
       \<and> (\<forall>i t. timelineItemSummaries
                    (the_store (fst (doDeleteStatus lk pds w inst S Atproto))) i t
                = (if i = inst \<and> t \<noteq> ''notifications''
                   then map_option (filter (\<lambda>x. summary_id x \<noteq> S))
                          (timelineItemSummaries (the_store w) i t)
                   else timelineItemSummaries (the_store w) i t))
       \<and> (\<forall>i t. timelineItemSummariesToAdd
                    (the_store (fst (doDeleteStatus lk pds w inst S Atproto))) i t
                = (if i = inst \<and> t \<noteq> ''notifications''
                   then map_option (filter (\<lambda>x. summary_id x \<noteq> S))
                          (timelineItemSummariesToAdd (the_store w) i t)
                   else timelineItemSummariesToAdd (the_store w) i t))
       \<and> (\<forall>h u. atproto_posts (the_database (fst (doDeleteStatus lk pds w inst S Atproto))) h u
                = (if h = pds \<and> u = S then None else atproto_posts (the_database w) h u))
       \<and> ap_delete_calls (the_database (fst (doDeleteStatus lk pds w inst S Atproto)))
           = ap_delete_calls (the_database w)"
proof -
  let ?ids = "statusIdsToDelete S (getIdsThatRebloggedThisStatus lk inst S)"
  let ?nids = "getNotificationIdsForStatuses lk inst ?ids"
  have ap: "fst (doDeleteStatus lk pds w inst S ActivityPub)
              = deleteStatusesAndNotifications w inst ?ids (array_from_set ?nids)"
    by (simp add: doDeleteStatus_def Let_def)
  have at: "fst (doDeleteStatus lk pds w inst S Atproto)
              = \<lparr>the_store = deleteStatusIdsFromStore (the_store w) inst [S],
                 the_database = (the_database w)\<lparr>atproto_posts :=
                   (\<lambda>h u. if h = pds \<and> u = S then None else atproto_posts (the_database w) h u)\<rparr>\<rparr>"
    using assms by (simp add: doDeleteStatus_def deleteAtprotoPost_def Let_def)
  have c1: "the_database (fst (doDeleteStatus lk pds w inst S ActivityPub))
           = (the_database w)\<lparr>ap_delete_calls :=
                ap_delete_calls (the_database w) @ [(inst, ?ids, array_from_set ?nids)]\<rparr>"
    unfolding ap by (simp add: deleteStatusesAndNotifications_def)
  have c2: "set ?ids
           = {x. x \<noteq> [] \<and> (x = S \<or> Some x \<in> set (getIdsThatRebloggedThisStatus lk inst S))}"
    by (rule statusIdsToDelete_set)
  have f: "filter_timeline_data
             (filter_timeline_data d inst (\<lambda>t. t \<noteq> ''notifications'') (\<lambda>i. i \<notin> set ?ids))
             inst (\<lambda>t. t = ''notifications'') (\<lambda>i. i \<notin> set (array_from_set ?nids)) i t
           = (if i = inst
              then map_option
                     (filter (\<lambda>x. summary_id x \<notin> set (if t = ''notifications'' then ?nids else ?ids)))
                     (d i t)
              else d i t)" for d i t
    by (auto simp: filter_timeline_data_def array_from_set_set split: option.splits)
  have c3: "timelineItemSummaries
                    (the_store (fst (doDeleteStatus lk pds w inst S ActivityPub))) i t
                = (if i = inst
                   then map_option
                          (filter (\<lambda>x. summary_id x \<notin> set
                             (if t = ''notifications'' then ?nids else ?ids)))
                          (timelineItemSummaries (the_store w) i t)
                   else timelineItemSummaries (the_store w) i t)" for i t
    unfolding ap
    by (simp add: deleteStatusesAndNotifications_def deleteNotificationIdsFromStore_def
          deleteStatusIdsFromStore_def filterItemIdsFromTimelines_def f)
  have c4: "timelineItemSummariesToAdd
                    (the_store (fst (doDeleteStatus lk pds w inst S ActivityPub))) i t
                = (if i = inst
                   then map_option
                          (filter (\<lambda>x. summary_id x \<notin> set
                             (if t = ''notifications'' then ?nids else ?ids)))
                          (timelineItemSummariesToAdd (the_store w) i t)
                   else timelineItemSummariesToAdd (the_store w) i t)" for i t
    unfolding ap
    by (simp add: deleteStatusesAndNotifications_def deleteNotificationIdsFromStore_def
          deleteStatusIdsFromStore_def filterItemIdsFromTimelines_def f)
  have g: "filter_timeline_data d inst (\<lambda>t. t \<noteq> ''notifications'') (\<lambda>i. i \<noteq> S) i t
           = (if i = inst \<and> t \<noteq> ''notifications''
              then map_option (filter (\<lambda>x. summary_id x \<noteq> S)) (d i t)
              else d i t)" for d i t
    by (auto simp: filter_timeline_data_def split: option.splits)
  have c5: "timelineItemSummaries
                    (the_store (fst (doDeleteStatus lk pds w inst S Atproto))) i t
                = (if i = inst \<and> t \<noteq> ''notifications''
                   then map_option (filter (\<lambda>x. summary_id x \<noteq> S))
                          (timelineItemSummaries (the_store w) i t)
                   else timelineItemSummaries (the_store w) i t)" for i t
    unfolding at
    by (simp add: deleteStatusIdsFromStore_def filterItemIdsFromTimelines_def g)
  have c6: "timelineItemSummariesToAdd
                    (the_store (fst (doDeleteStatus lk pds w inst S Atproto))) i t
                = (if i = inst \<and> t \<noteq> ''notifications''
                   then map_option (filter (\<lambda>x. summary_id x \<noteq> S))
                          (timelineItemSummariesToAdd (the_store w) i t)
                   else timelineItemSummariesToAdd (the_store w) i t)" for i t
    unfolding at
    by (simp add: deleteStatusIdsFromStore_def filterItemIdsFromTimelines_def g)
  have c7: "atproto_posts (the_database (fst (doDeleteStatus lk pds w inst S Atproto))) h u
                = (if h = pds \<and> u = S then None else atproto_posts (the_database w) h u)" for h u
    unfolding at by simp
  have c8: "ap_delete_calls (the_database (fst (doDeleteStatus lk pds w inst S Atproto)))
           = ap_delete_calls (the_database w)"
    unfolding at by simp
  show ?thesis
    using c1 c2 c3 c4 c5 c6 c7 c8 by blast
qed

theorem local_deletion_witness:
  "the_database (fst
       (doDeleteStatus
          \<lparr>getIdsThatRebloggedThisStatus = (\<lambda>i s. [Some ''r1'', Some ''r2'', Some ''r1'']),
           getNotificationIdsForStatuses = (\<lambda>i ids. [''n1''])\<rparr>
          ''pds.example''
          \<lparr>the_store =
             \<lparr>timelineItemSummaries =
                (\<lambda>i t. if i = ''m.social'' \<and> t = ''home''
                       then Some [\<lparr>summary_id = ''s1'', sortKey = 4, summary_type = ''status''\<rparr>,
                                  \<lparr>summary_id = ''r1'', sortKey = 3, summary_type = ''status''\<rparr>,
                                  \<lparr>summary_id = ''r2'', sortKey = 2, summary_type = ''status''\<rparr>,
                                  \<lparr>summary_id = ''x'', sortKey = 1, summary_type = ''status''\<rparr>]
                       else None),
              timelineItemSummariesToAdd = (\<lambda>i t. None)\<rparr>,
           the_database =
             \<lparr>atproto_posts = (\<lambda>h u. None), atproto_timelines = (\<lambda>h k. None),
              ap_delete_calls = []\<rparr>\<rparr>
          ''m.social'' ''s1'' ActivityPub))
   = \<lparr>atproto_posts = (\<lambda>h u. None), atproto_timelines = (\<lambda>h k. None),
      ap_delete_calls = [(''m.social'', [''s1'', ''r1'', ''r2''], [''n1''])]\<rparr>"
proof -
  have h: "''s1'' \<noteq> []" by simp
  show ?thesis
    unfolding local_deletion [OF h, THEN conjunct1]
    by (simp add: statusIdsToDelete_def array_from_set_def truthy_def or_empty_def)
qed

section \<open>Theorems about feed cursors\<close>

text \<open>
  C9. Writing a cursor \<open>X\<close> for a timeline sets the in-memory \<^verbatim>\<open>timelineNextPageId\<close> and
  then throws on the unbound \<^verbatim>\<open>atprotoAgent\<close>, before the database is asked to store \<open>X\<close>:
  the persistent store is as it was. Reading with no in-memory value (a cold restart)
  throws on the same name before the database is asked. So no cursor written on this path
  is read back from the persistent store.
\<close>

theorem cursor_never_reaches_persistent_store:
  "storeNewCursor clone cs inst t X
     = (cs\<lparr>timelineNextPageId :=
             (\<lambda>i t'. if i = inst \<and> t' = t then X else timelineNextPageId cs i t')\<rparr>,
        Some ''ReferenceError: atprotoAgent is not defined'')
   \<and> feed_cursors (fst (storeNewCursor clone cs inst t X)) = feed_cursors cs
   \<and> cursorToUse (feed_cursors (fst (storeNewCursor clone cs inst t X))) t Undefined
       = Inl ''ReferenceError: atprotoAgent is not defined''"
  by (simp add: storeNewCursor_def cursorToUse_def pdsHostname_in_timeline_js_def Let_def)

section \<open>Theorems about the timeline merges\<close>

lemma uniq_from_ids:
  "distinct (map summary_id (uniq_from seen xs))
   \<and> set (map summary_id (uniq_from seen xs)) = set (map summary_id xs) - set seen"
  by (induction xs arbitrary: seen) auto

lemma uniqById_distinct: "distinct (map summary_id (uniqById xs))"
  by (simp add: uniqById_def uniq_from_ids)

lemma summaries_after_add:
  "summaries (addTimelineItemSummaries so cmp st tn new stale)
     = Some (let m = uniqById (mergeArrays cmp (or_nil (summaries st))
                       (if timeline_type tn = ''notifications''
                        then sortItemSummariesForNotificationBatch so new else new))
             in if timeline_type tn = ''status''
                then sortItemSummariesForThread so m (timeline_statusId tn) else m)"
  by (simp add: addTimelineItemSummaries_def Let_def)

lemma summaries_after_add_paged:
  "summaries (addPagedTimelineItemSummaries so st tn new)
     = Some (let m = uniqById (concat_arrays (or_nil (summaries st))
                       (if timeline_type tn = ''notifications''
                        then sortItemSummariesForNotificationBatch so new else new))
             in if timeline_type tn = ''status''
                then sortItemSummariesForThread so m (timeline_statusId tn) else m)"
  by (simp add: addPagedTimelineItemSummaries_def Let_def)

text \<open>
  C1. After either merge the timeline's list of summaries has no two entries with the same
  id, whatever ids repeat in the old list and in the batch. The thread sort, applied last
  on a \<^verbatim>\<open>status/...\<close> timeline, is assumed to return distinct ids when given distinct ids.
\<close>

theorem no_duplicate_ids_after_merge:
  assumes "\<And>xs sid. distinct (map summary_id xs)
             \<Longrightarrow> distinct (map summary_id (sortItemSummariesForThread so xs sid))"
  shows "distinct (map summary_id (or_nil (summaries
            (addTimelineItemSummaries so cmp st timelineName newSummaries newStale))))
       \<and> distinct (map summary_id (or_nil (summaries
            (addPagedTimelineItemSummaries so st timelineName newSummaries))))"
  using assms
  by (simp add: summaries_after_add summaries_after_add_paged Let_def or_nil_def
        uniqById_distinct)

theorem no_duplicate_ids_after_merge_witness:
  "distinct (map summary_id (or_nil (summaries
      (addTimelineItemSummaries
         \<lparr>sortItemSummariesForNotificationBatch = (\<lambda>xs. xs),
          sortItemSummariesForThread = (\<lambda>xs sid. xs)\<rparr>
         (\<lambda>a b. int (sortKey a) - int (sortKey b))
         \<lparr>summaries = Some [\<lparr>summary_id = ''b'', sortKey = 90, summary_type = ''status''\<rparr>,
                            \<lparr>summary_id = ''b'', sortKey = 90, summary_type = ''status''\<rparr>],
          summariesAreStale = Some True\<rparr>
         ''home''
         [\<lparr>summary_id = ''a'', sortKey = 100, summary_type = ''status''\<rparr>,
          \<lparr>summary_id = ''b'', sortKey = 90, summary_type = ''status''\<rparr>,
          \<lparr>summary_id = ''a'', sortKey = 100, summary_type = ''status''\<rparr>]
         False))))
   \<and> distinct (map summary_id (or_nil (summaries
      (addPagedTimelineItemSummaries
         \<lparr>sortItemSummariesForNotificationBatch = (\<lambda>xs. xs),
          sortItemSummariesForThread = (\<lambda>xs sid. xs)\<rparr>
         \<lparr>summaries = Some [\<lparr>summary_id = ''b'', sortKey = 90, summary_type = ''status''\<rparr>,
                            \<lparr>summary_id = ''b'', sortKey = 90, summary_type = ''status''\<rparr>],
          summariesAreStale = Some True\<rparr>
         ''home''
         [\<lparr>summary_id = ''a'', sortKey = 100, summary_type = ''status''\<rparr>,
          \<lparr>summary_id = ''b'', sortKey = 90, summary_type = ''status''\<rparr>,
          \<lparr>summary_id = ''a'', sortKey = 100, summary_type = ''status''\<rparr>]))))"
  by (rule no_duplicate_ids_after_merge) simp

subsection \<open>The two merge policies\<close>













subsection \<open>Merging the same batch twice\<close>

lemma mergeArrays_Nil2 [simp]: "mergeArrays cmp ls [] = ls"
  by (cases ls) auto













end
